theory Spec2Isabelle
  imports Main "HOL-Library.Word"
begin

unbundle bit_operations_syntax

section \<open>The three Lab Brick headers\<close>

text \<open>
  The repository holds three C headers, one per instrument family:
  \<^item> \<^verbatim>\<open>LabBrick_LMS_Synthesizer/DLL/vnx_fmsynth.h\<close> (functions \<^verbatim>\<open>fnLMS_*\<close>), the synthesizer;
  \<^item> \<^verbatim>\<open>LabBrick_LSG_SignalGenerator/DLL/vnx_fsynsth.h\<close> (functions \<^verbatim>\<open>fnLSG_*\<close>), the
    signal generator;
  \<^item> \<^verbatim>\<open>Vaunix_Attenuator/VNX_atten.h\<close> (functions \<^verbatim>\<open>fnLDA_*\<close>), the attenuator.
  Each header defines the same macro names with its own values, so every macro is
  embedded under the prefix of its header's functions: \<^verbatim>\<open>MODE_RFON\<close> of
  \<^verbatim>\<open>VNX_atten.h\<close> is \<open>LDA_MODE_RFON\<close>. \<^verbatim>\<open>DEVID\<close> is \<^verbatim>\<open>unsigned int\<close> and
  \<^verbatim>\<open>LVSTATUS\<close> is \<^verbatim>\<open>int\<close>: both are 32-bit words here, read with \<open>sint\<close> where
  the sign matters.
\<close>

type_synonym DEVID = "32 word"
type_synonym LVSTATUS = "32 word"

datatype family = Synthesizer | Generator | Attenuator

subsection \<open>Global equates\<close>

definition MAXDEVICES :: nat where "MAXDEVICES = 64"
definition MAX_MODELNAME :: nat where "MAX_MODELNAME = 32"
definition PROFILE_MAX :: nat where "PROFILE_MAX = 100"

subsection \<open>Mode bit masks\<close>

text \<open>\<^verbatim>\<open>vnx_fmsynth.h\<close>, lines 28 to 34.\<close>

definition LMS_MODE_RFON :: "32 word" where "LMS_MODE_RFON = 0x00000010"
definition LMS_MODE_INTREF :: "32 word" where "LMS_MODE_INTREF = 0x00000020"
definition LMS_MODE_SWEEP :: "32 word" where "LMS_MODE_SWEEP = 0x0000000F"
definition LMS_MODE_PWMON :: "32 word" where "LMS_MODE_PWMON = 0x00000100"
definition LMS_MODE_EXTPWM :: "32 word" where "LMS_MODE_EXTPWM = 0x00000200"
definition LMS_PWM_MASK :: "32 word" where "LMS_PWM_MASK = 0x00000300"

text \<open>\<^verbatim>\<open>vnx_fsynsth.h\<close>, lines 24 to 26.\<close>

definition LSG_MODE_RFON :: "32 word" where "LSG_MODE_RFON = 0x00000010"
definition LSG_MODE_INTREF :: "32 word" where "LSG_MODE_INTREF = 0x00000020"
definition LSG_MODE_SWEEP :: "32 word" where "LSG_MODE_SWEEP = 0x0000000F"

text \<open>\<^verbatim>\<open>VNX_atten.h\<close>, lines 34 to 36.\<close>

definition LDA_MODE_RFON :: "32 word" where "LDA_MODE_RFON = 0x00000040"
definition LDA_MODE_INTREF :: "32 word" where "LDA_MODE_INTREF = 0x00000020"
definition LDA_MODE_SWEEP :: "32 word" where "LDA_MODE_SWEEP = 0x0000001F"

subsection \<open>Status returns for commands\<close>

text \<open>\<^verbatim>\<open>vnx_fmsynth.h\<close>, lines 42 to 45.\<close>

definition LMS_STATUS_OK :: LVSTATUS where "LMS_STATUS_OK = 0"
definition LMS_BAD_PARAMETER :: LVSTATUS where "LMS_BAD_PARAMETER = 0x80010000"
definition LMS_BAD_HID_IO :: LVSTATUS where "LMS_BAD_HID_IO = 0x80020000"
definition LMS_DEVICE_NOT_READY :: LVSTATUS where "LMS_DEVICE_NOT_READY = 0x80030000"

text \<open>\<^verbatim>\<open>vnx_fsynsth.h\<close>, lines 35 to 38.\<close>

definition LSG_STATUS_OK :: LVSTATUS where "LSG_STATUS_OK = 0"
definition LSG_BAD_PARAMETER :: LVSTATUS where "LSG_BAD_PARAMETER = 0x80010000"
definition LSG_BAD_HID_IO :: LVSTATUS where "LSG_BAD_HID_IO = 0x80020000"
definition LSG_DEVICE_NOT_READY :: LVSTATUS where "LSG_DEVICE_NOT_READY = 0x80030000"

text \<open>\<^verbatim>\<open>VNX_atten.h\<close>, lines 45 to 49.\<close>

definition LDA_STATUS_OK :: LVSTATUS where "LDA_STATUS_OK = 0"
definition LDA_BAD_PARAMETER :: LVSTATUS where "LDA_BAD_PARAMETER = 0x80010000"
definition LDA_BAD_HID_IO :: LVSTATUS where "LDA_BAD_HID_IO = 0x80020000"
definition LDA_DEVICE_NOT_READY :: LVSTATUS where "LDA_DEVICE_NOT_READY = 0x80030000"
definition LDA_FEATURE_NOT_SUPPORTED :: LVSTATUS where "LDA_FEATURE_NOT_SUPPORTED = 0x80040000"

text \<open>
  The names of the status returns, and the value each header gives to each name:
  \<open>None\<close> where the header does not define the name.
\<close>

datatype status_name =
  STATUS_OK | BAD_PARAMETER | BAD_HID_IO | DEVICE_NOT_READY | FEATURE_NOT_SUPPORTED

fun LMS_status :: "status_name \<Rightarrow> LVSTATUS option" where
  "LMS_status STATUS_OK = Some LMS_STATUS_OK"
| "LMS_status BAD_PARAMETER = Some LMS_BAD_PARAMETER"
| "LMS_status BAD_HID_IO = Some LMS_BAD_HID_IO"
| "LMS_status DEVICE_NOT_READY = Some LMS_DEVICE_NOT_READY"
| "LMS_status FEATURE_NOT_SUPPORTED = None"

fun LSG_status :: "status_name \<Rightarrow> LVSTATUS option" where
  "LSG_status STATUS_OK = Some LSG_STATUS_OK"
| "LSG_status BAD_PARAMETER = Some LSG_BAD_PARAMETER"
| "LSG_status BAD_HID_IO = Some LSG_BAD_HID_IO"
| "LSG_status DEVICE_NOT_READY = Some LSG_DEVICE_NOT_READY"
| "LSG_status FEATURE_NOT_SUPPORTED = None"

fun LDA_status :: "status_name \<Rightarrow> LVSTATUS option" where
  "LDA_status STATUS_OK = Some LDA_STATUS_OK"
| "LDA_status BAD_PARAMETER = Some LDA_BAD_PARAMETER"
| "LDA_status BAD_HID_IO = Some LDA_BAD_HID_IO"
| "LDA_status DEVICE_NOT_READY = Some LDA_DEVICE_NOT_READY"
| "LDA_status FEATURE_NOT_SUPPORTED = Some LDA_FEATURE_NOT_SUPPORTED"

fun status_value :: "family \<Rightarrow> status_name \<Rightarrow> LVSTATUS option" where
  "status_value Synthesizer = LMS_status"
| "status_value Generator = LSG_status"
| "status_value Attenuator = LDA_status"

subsection \<open>Status returns for DevStatus\<close>

text \<open>\<^verbatim>\<open>vnx_fmsynth.h\<close>, lines 52 to 64.\<close>

definition LMS_INVALID_DEVID :: "32 word" where "LMS_INVALID_DEVID = 0x80000000"
definition LMS_DEV_CONNECTED :: "32 word" where "LMS_DEV_CONNECTED = 0x00000001"
definition LMS_DEV_OPENED :: "32 word" where "LMS_DEV_OPENED = 0x00000002"
definition LMS_SWP_ACTIVE :: "32 word" where "LMS_SWP_ACTIVE = 0x00000004"
definition LMS_SWP_UP :: "32 word" where "LMS_SWP_UP = 0x00000008"
definition LMS_SWP_REPEAT :: "32 word" where "LMS_SWP_REPEAT = 0x00000010"
definition LMS_SWP_BIDIRECTIONAL :: "32 word" where "LMS_SWP_BIDIRECTIONAL = 0x00000020"
definition LMS_PLL_LOCKED :: "32 word" where "LMS_PLL_LOCKED = 0x00000040"
definition LMS_FAST_PULSE_OPTION :: "32 word" where "LMS_FAST_PULSE_OPTION = 0x00000080"
definition LMS_DEV_LOCKED :: "32 word" where "LMS_DEV_LOCKED = 0x00002000"
definition LMS_DEV_RDTHREAD :: "32 word" where "LMS_DEV_RDTHREAD = 0x00004000"

text \<open>\<^verbatim>\<open>vnx_fsynsth.h\<close>, lines 42 to 51.\<close>

definition LSG_INVALID_DEVID :: "32 word" where "LSG_INVALID_DEVID = 0x80000000"
definition LSG_DEV_CONNECTED :: "32 word" where "LSG_DEV_CONNECTED = 0x00000001"
definition LSG_DEV_OPENED :: "32 word" where "LSG_DEV_OPENED = 0x00000002"
definition LSG_SWP_ACTIVE :: "32 word" where "LSG_SWP_ACTIVE = 0x00000004"
definition LSG_SWP_UP :: "32 word" where "LSG_SWP_UP = 0x00000008"
definition LSG_SWP_REPEAT :: "32 word" where "LSG_SWP_REPEAT = 0x00000010"
definition LSG_DEV_LOCKED :: "32 word" where "LSG_DEV_LOCKED = 0x00000020"
definition LSG_DEV_RDTHREAD :: "32 word" where "LSG_DEV_RDTHREAD = 0x00000040"

text \<open>\<^verbatim>\<open>VNX_atten.h\<close>, lines 55 to 62.\<close>

definition LDA_INVALID_DEVID :: "32 word" where "LDA_INVALID_DEVID = 0x80000000"
definition LDA_DEV_CONNECTED :: "32 word" where "LDA_DEV_CONNECTED = 0x00000001"
definition LDA_DEV_OPENED :: "32 word" where "LDA_DEV_OPENED = 0x00000002"
definition LDA_SWP_ACTIVE :: "32 word" where "LDA_SWP_ACTIVE = 0x00000004"
definition LDA_SWP_UP :: "32 word" where "LDA_SWP_UP = 0x00000008"
definition LDA_SWP_REPEAT :: "32 word" where "LDA_SWP_REPEAT = 0x00000010"
definition LDA_SWP_BIDIRECTIONAL :: "32 word" where "LDA_SWP_BIDIRECTIONAL = 0x00000020"
definition LDA_PROFILE_ACTIVE :: "32 word" where "LDA_PROFILE_ACTIVE = 0x00000040"

text \<open>
  The names of the DevStatus masks, and the mask each header gives to each name:
  \<open>None\<close> where the header does not define the name.
\<close>

datatype status_flag =
  INVALID_DEVID | DEV_CONNECTED | DEV_OPENED | SWP_ACTIVE | SWP_UP | SWP_REPEAT
  | SWP_BIDIRECTIONAL | PLL_LOCKED | FAST_PULSE_OPTION | PROFILE_ACTIVE
  | DEV_LOCKED | DEV_RDTHREAD

fun LMS_DevStatus :: "status_flag \<Rightarrow> 32 word option" where
  "LMS_DevStatus INVALID_DEVID = Some LMS_INVALID_DEVID"
| "LMS_DevStatus DEV_CONNECTED = Some LMS_DEV_CONNECTED"
| "LMS_DevStatus DEV_OPENED = Some LMS_DEV_OPENED"
| "LMS_DevStatus SWP_ACTIVE = Some LMS_SWP_ACTIVE"
| "LMS_DevStatus SWP_UP = Some LMS_SWP_UP"
| "LMS_DevStatus SWP_REPEAT = Some LMS_SWP_REPEAT"
| "LMS_DevStatus SWP_BIDIRECTIONAL = Some LMS_SWP_BIDIRECTIONAL"
| "LMS_DevStatus PLL_LOCKED = Some LMS_PLL_LOCKED"
| "LMS_DevStatus FAST_PULSE_OPTION = Some LMS_FAST_PULSE_OPTION"
| "LMS_DevStatus PROFILE_ACTIVE = None"
| "LMS_DevStatus DEV_LOCKED = Some LMS_DEV_LOCKED"
| "LMS_DevStatus DEV_RDTHREAD = Some LMS_DEV_RDTHREAD"

fun LSG_DevStatus :: "status_flag \<Rightarrow> 32 word option" where
  "LSG_DevStatus INVALID_DEVID = Some LSG_INVALID_DEVID"
| "LSG_DevStatus DEV_CONNECTED = Some LSG_DEV_CONNECTED"
| "LSG_DevStatus DEV_OPENED = Some LSG_DEV_OPENED"
| "LSG_DevStatus SWP_ACTIVE = Some LSG_SWP_ACTIVE"
| "LSG_DevStatus SWP_UP = Some LSG_SWP_UP"
| "LSG_DevStatus SWP_REPEAT = Some LSG_SWP_REPEAT"
| "LSG_DevStatus SWP_BIDIRECTIONAL = None"
| "LSG_DevStatus PLL_LOCKED = None"
| "LSG_DevStatus FAST_PULSE_OPTION = None"
| "LSG_DevStatus PROFILE_ACTIVE = None"
| "LSG_DevStatus DEV_LOCKED = Some LSG_DEV_LOCKED"
| "LSG_DevStatus DEV_RDTHREAD = Some LSG_DEV_RDTHREAD"

fun LDA_DevStatus :: "status_flag \<Rightarrow> 32 word option" where
  "LDA_DevStatus INVALID_DEVID = Some LDA_INVALID_DEVID"
| "LDA_DevStatus DEV_CONNECTED = Some LDA_DEV_CONNECTED"
| "LDA_DevStatus DEV_OPENED = Some LDA_DEV_OPENED"
| "LDA_DevStatus SWP_ACTIVE = Some LDA_SWP_ACTIVE"
| "LDA_DevStatus SWP_UP = Some LDA_SWP_UP"
| "LDA_DevStatus SWP_REPEAT = Some LDA_SWP_REPEAT"
| "LDA_DevStatus SWP_BIDIRECTIONAL = Some LDA_SWP_BIDIRECTIONAL"
| "LDA_DevStatus PLL_LOCKED = None"
| "LDA_DevStatus FAST_PULSE_OPTION = None"
| "LDA_DevStatus PROFILE_ACTIVE = Some LDA_PROFILE_ACTIVE"
| "LDA_DevStatus DEV_LOCKED = None"
| "LDA_DevStatus DEV_RDTHREAD = None"

fun status_mask :: "family \<Rightarrow> status_flag \<Rightarrow> 32 word option" where
  "status_mask Synthesizer = LMS_DevStatus"
| "status_mask Generator = LSG_DevStatus"
| "status_mask Attenuator = LDA_DevStatus"

text \<open>
  The headers document every DevStatus mask as "set if ...": a flag of a status word is
  read by the C test \<^verbatim>\<open>(status & MASK) != 0\<close>.
\<close>

definition flag_set :: "32 word \<Rightarrow> 32 word \<Rightarrow> bool" where
  "flag_set status m = (status AND m \<noteq> 0)"

text \<open>
  The flags of a status word for one family: the value of every flag the family's header
  defines, \<open>None\<close> for a flag it does not define.
\<close>

definition status_flags :: "32 word \<Rightarrow> family \<Rightarrow> status_flag \<Rightarrow> bool option" where
  "status_flags w fam fl = map_option (flag_set w) (status_mask fam fl)"

text \<open>
  Every flag name, in the order of the definitions in the headers, and the flags of a
  status word that are set for one family.
\<close>

definition all_status_flags :: "status_flag list" where
  "all_status_flags =
     [INVALID_DEVID, DEV_CONNECTED, DEV_OPENED, SWP_ACTIVE, SWP_UP, SWP_REPEAT,
      SWP_BIDIRECTIONAL, PLL_LOCKED, FAST_PULSE_OPTION, PROFILE_ACTIVE, DEV_LOCKED,
      DEV_RDTHREAD]"

definition raised_flags :: "32 word \<Rightarrow> family \<Rightarrow> status_flag list" where
  "raised_flags w fam = filter (\<lambda>fl. status_flags w fam fl = Some True) all_status_flags"

text \<open>
  The layout table of the specification (section 6, "Status word layout"), row by row:
  the bit position of each flag for each family, \<open>None\<close> where the table has a dash or
  "n/a".
\<close>

fun spec_layout_bit :: "family \<Rightarrow> status_flag \<Rightarrow> nat option" where
  "spec_layout_bit _ INVALID_DEVID = Some 31"
| "spec_layout_bit _ DEV_CONNECTED = Some 0"
| "spec_layout_bit _ DEV_OPENED = Some 1"
| "spec_layout_bit _ SWP_ACTIVE = Some 2"
| "spec_layout_bit _ SWP_UP = Some 3"
| "spec_layout_bit _ SWP_REPEAT = Some 4"
| "spec_layout_bit Synthesizer SWP_BIDIRECTIONAL = Some 5"
| "spec_layout_bit Generator SWP_BIDIRECTIONAL = None"
| "spec_layout_bit Attenuator SWP_BIDIRECTIONAL = Some 5"
| "spec_layout_bit Synthesizer PLL_LOCKED = Some 6"
| "spec_layout_bit Generator PLL_LOCKED = None"
| "spec_layout_bit Attenuator PLL_LOCKED = None"
| "spec_layout_bit Synthesizer FAST_PULSE_OPTION = Some 7"
| "spec_layout_bit Generator FAST_PULSE_OPTION = None"
| "spec_layout_bit Attenuator FAST_PULSE_OPTION = None"
| "spec_layout_bit Synthesizer PROFILE_ACTIVE = None"
| "spec_layout_bit Generator PROFILE_ACTIVE = None"
| "spec_layout_bit Attenuator PROFILE_ACTIVE = Some 6"
| "spec_layout_bit Synthesizer DEV_LOCKED = Some 13"
| "spec_layout_bit Generator DEV_LOCKED = Some 5"
| "spec_layout_bit Attenuator DEV_LOCKED = None"
| "spec_layout_bit Synthesizer DEV_RDTHREAD = Some 14"
| "spec_layout_bit Generator DEV_RDTHREAD = Some 6"
| "spec_layout_bit Attenuator DEV_RDTHREAD = None"

subsection \<open>Reading and writing the mode word\<close>

text \<open>
  The mask of the RF-on bit and of the sweep (ramp) control field in each header's mode
  word, and the same C test for the RF-on bit.
\<close>

fun mode_rfon_mask :: "family \<Rightarrow> 32 word" where
  "mode_rfon_mask Synthesizer = LMS_MODE_RFON"
| "mode_rfon_mask Generator = LSG_MODE_RFON"
| "mode_rfon_mask Attenuator = LDA_MODE_RFON"

fun mode_sweep_mask :: "family \<Rightarrow> 32 word" where
  "mode_sweep_mask Synthesizer = LMS_MODE_SWEEP"
| "mode_sweep_mask Generator = LSG_MODE_SWEEP"
| "mode_sweep_mask Attenuator = LDA_MODE_SWEEP"

definition mode_rf_on :: "family \<Rightarrow> 32 word \<Rightarrow> bool" where
  "mode_rf_on fam mode = flag_set mode (mode_rfon_mask fam)"

text \<open>
  Updating the field of a mode word that a mask selects, the C read-modify-write
  \<^verbatim>\<open>mode = (mode & ~MASK) | (bits & MASK)\<close>: only the bits under the mask are taken from
  the new value.
\<close>

definition update_field :: "32 word \<Rightarrow> 32 word \<Rightarrow> 32 word \<Rightarrow> 32 word" where
  "update_field m mode bits = (mode AND NOT m) OR (bits AND m)"

section \<open>The session and sequencing layer\<close>

text \<open>
  The headers declare the functions of the DLL and the masks of its words; the bodies of
  the functions are not part of the repository. The behaviour of the layer that the
  specification builds on these declarations is embedded from the specification, each
  definition saying which part it follows.
\<close>

text \<open>
  Modelled from the spec: the error taxonomy of section 7, the failures of the layer's
  operations. The headers have only the numeric status returns of the DLL.
\<close>

datatype error =
  InvalidDeviceId | DeviceNotReady | BadParameter | IoError | FeatureNotSupported
  | InvalidState

subsection \<open>Status decoder\<close>

text \<open>
  Modelled from the spec: the decoder \<^verbatim>\<open>decode(raw_status_word, family) -> DeviceStatus\<close>
  of sections 3 and 4.4, which no header contains (the headers only declare
  \<^verbatim>\<open>fnXXX_GetDeviceStatus\<close>, returning the raw word). The record has the fields of the
  spec's DeviceStatus. \<open>device_connected\<close> is the connected bit; every other flag is a
  \<open>bool option\<close>, \<open>None\<close> being the "unknown" representation: a flag is read through
  the family's mask when the word reports the device connected, and is unknown when it
  does not, or when the family's header has no mask for it.
\<close>

record DeviceStatus =
  device_connected :: bool
  device_opened :: "bool option"
  sweep_or_ramp_active :: "bool option"
  sweep_or_ramp_direction_up :: "bool option"
  repeat_enabled :: "bool option"
  bidirectional_enabled :: "bool option"
  pll_locked :: "bool option"
  fast_pulse_available :: "bool option"
  profile_active :: "bool option"

definition dependent_flag :: "32 word \<Rightarrow> family \<Rightarrow> status_flag \<Rightarrow> bool option" where
  "dependent_flag w fam fl =
     (if status_flags w fam DEV_CONNECTED = Some True then status_flags w fam fl else None)"

definition decode :: "32 word \<Rightarrow> family \<Rightarrow> DeviceStatus" where
  "decode w fam =
     \<lparr> device_connected = (status_flags w fam DEV_CONNECTED = Some True),
       device_opened = dependent_flag w fam DEV_OPENED,
       sweep_or_ramp_active = dependent_flag w fam SWP_ACTIVE,
       sweep_or_ramp_direction_up = dependent_flag w fam SWP_UP,
       repeat_enabled = dependent_flag w fam SWP_REPEAT,
       bidirectional_enabled = dependent_flag w fam SWP_BIDIRECTIONAL,
       pll_locked = dependent_flag w fam PLL_LOCKED,
       fast_pulse_available = dependent_flag w fam FAST_PULSE_OPTION,
       profile_active = dependent_flag w fam PROFILE_ACTIVE \<rparr>"

text \<open>The flags of a DeviceStatus other than \<open>device_connected\<close>, in the record's order.\<close>

definition dependent_flags :: "DeviceStatus \<Rightarrow> bool option list" where
  "dependent_flags st =
     [device_opened st, sweep_or_ramp_active st, sweep_or_ramp_direction_up st,
      repeat_enabled st, bidirectional_enabled st, pll_locked st,
      fast_pulse_available st, profile_active st]"

subsection \<open>Device registry and sessions\<close>

text \<open>
  Modelled from the spec: the DeviceRecord of section 3 and the registry that owns the
  records, keyed by DeviceId. The headers have only \<^verbatim>\<open>DEVID\<close> and the declarations of
  \<^verbatim>\<open>fnXXX_GetDevInfo\<close>, \<^verbatim>\<open>fnXXX_InitDevice\<close> and \<^verbatim>\<open>fnXXX_CloseDevice\<close>.
\<close>

record DeviceRecord =
  model_name :: string
  serial_number :: int
  dev_family :: family
  connected :: bool
  opened :: bool

type_synonym registry = "DEVID \<Rightarrow> DeviceRecord option"

text \<open>
  Modelled from the spec: the numeric parameters of the ParameterSet of section 3 (the
  level is the power of a synthesizer or generator and the attenuation of an
  attenuator), and the requests a session sends to the transport.
\<close>

datatype parameter =
  CurrentFrequency | StartFrequency | EndFrequency | Level | StepSize | DwellTime
  | HoldTime | IdleTime | ProfileDwellTime | ProfileIdleTime

datatype sequencer_kind = Sweep | Ramp | Profile

datatype command =
  WriteParameter parameter int
  | WriteProfileElement nat int
  | WriteProfileCount nat
  | StopCommand sequencer_kind

text \<open>
  Modelled from the spec: the Transport of sections 2 and 6, an external collaborator
  consumed through \<^verbatim>\<open>exchange(deviceHandle, outBuffer) -> inBuffer | fails(IoError)\<close>.
  A transport is any function that, from the requests sent so far and the next request,
  says whether the exchange succeeds.
\<close>

type_synonym transport = "command list \<Rightarrow> command \<Rightarrow> bool"

text \<open>
  Modelled from the spec: the Session of sections 3 and 4.2, which owns the handle of one
  device and the cached ParameterSet. \<open>live\<close> says that the session holds the open
  handle, \<open>bounds\<close> are the (min, max) pairs read at open, \<open>cached\<close> the last value read
  or set, \<open>profile\<close> the attenuator's profile array (indices 0 to 99 are used) and
  \<open>exchanges\<close> the requests the session has sent to the transport, oldest first.
\<close>

record Session =
  device :: DEVID
  live :: bool
  bounds :: "parameter \<Rightarrow> int \<times> int"
  cached :: "parameter \<Rightarrow> int"
  profile :: "nat \<Rightarrow> int"
  profile_count :: nat
  exchanges :: "command list"

text \<open>
  Modelled from the spec: what the device reports when a session reads it at open
  ("the Session eagerly reads current parameter values, min/max bounds, and capability
  flags once"), an answer of the external transport.
\<close>

record device_report =
  reported_bounds :: "parameter \<Rightarrow> int \<times> int"
  reported_values :: "parameter \<Rightarrow> int"
  reported_profile :: "nat \<Rightarrow> int"
  reported_profile_count :: nat

text \<open>
  Modelled from the spec: \<^verbatim>\<open>open(id) -> Session | fails(DeviceNotReady)\<close> of section 4.2,
  behind the declaration of \<^verbatim>\<open>fnXXX_InitDevice\<close>: "fails if the device is not connected,
  or already opened by another session. On success, opened=true" and the session caches
  what it reads. A DeviceId with no record is not connected. The result is paired with
  the registry after the call. The profile count is at most \<open>PROFILE_MAX\<close>
  ("profile_count clamps to \<le>100").
\<close>

definition open_session ::
  "device_report \<Rightarrow> DEVID \<Rightarrow> registry \<Rightarrow> (error + Session) \<times> registry" where
  "open_session hw i reg =
     (case reg i of
        None \<Rightarrow> (Inl DeviceNotReady, reg)
      | Some r \<Rightarrow>
          if \<not> connected r \<or> opened r then (Inl DeviceNotReady, reg)
          else (Inr \<lparr> device = i, live = True, bounds = reported_bounds hw,
                      cached = reported_values hw, profile = reported_profile hw,
                      profile_count = min (reported_profile_count hw) PROFILE_MAX,
                      exchanges = [] \<rparr>,
                reg(i \<mapsto> r\<lparr>opened := True\<rparr>)))"

text \<open>
  Modelled from the spec: \<^verbatim>\<open>close()\<close> of section 4.2, behind the declaration of
  \<^verbatim>\<open>fnXXX_CloseDevice\<close>: "releases the handle; idempotent; always succeeds; sets
  opened=false on the backing record". A session that no longer holds the handle
  releases nothing.
\<close>

definition close_session :: "Session \<Rightarrow> registry \<Rightarrow> Session \<times> registry" where
  "close_session s reg =
     (if live s
      then (s\<lparr>live := False\<rparr>,
            case reg (device s) of
              None \<Rightarrow> reg
            | Some r \<Rightarrow> reg(device s \<mapsto> r\<lparr>opened := False\<rparr>))
      else (s, reg))"

subsection \<open>Getting and setting parameters\<close>

text \<open>
  Modelled from the spec: \<^verbatim>\<open>get_<parameter>()\<close> and \<^verbatim>\<open>set_<parameter>(value)\<close> of section
  4.2, behind the declarations of the \<^verbatim>\<open>fnXXX_Get...\<close> and \<^verbatim>\<open>fnXXX_Set...\<close> functions:
  a getter "returns the last value read or set" and "must never return a value for a
  closed session (fails with DeviceNotReady)"; a setter "validates value against the
  cached min/max before issuing any device I/O; BadParameter is returned locally without
  touching the transport. IoError indicates the transport exchange failed; the Session's
  cached value is left unchanged". The result is paired with the session after the call.
\<close>

definition get_parameter :: "parameter \<Rightarrow> Session \<Rightarrow> error + int" where
  "get_parameter p s = (if live s then Inr (cached s p) else Inl DeviceNotReady)"

definition set_parameter ::
  "transport \<Rightarrow> parameter \<Rightarrow> int \<Rightarrow> Session \<Rightarrow> (error + unit) \<times> Session" where
  "set_parameter tr p v s =
     (if \<not> live s then (Inl DeviceNotReady, s)
      else if v < fst (bounds s p) \<or> snd (bounds s p) < v then (Inl BadParameter, s)
      else if tr (exchanges s) (WriteParameter p v)
      then (Inr (), s\<lparr>cached := (cached s)(p := v),
                       exchanges := exchanges s @ [WriteParameter p v]\<rparr>)
      else (Inl IoError, s\<lparr>exchanges := exchanges s @ [WriteParameter p v]\<rparr>))"

subsection \<open>The attenuator's profile\<close>

text \<open>
  Modelled from the spec: the profile operations of sections 4.3 and 8, behind the
  declarations of \<^verbatim>\<open>fnLDA_SetProfileElement\<close>, \<^verbatim>\<open>fnLDA_GetProfileElement\<close>,
  \<^verbatim>\<open>fnLDA_SetProfileCount\<close> and \<^verbatim>\<open>fnLDA_GetProfileCount\<close>, whose \<^verbatim>\<open>index\<close> and
  \<^verbatim>\<open>profilecount\<close> are C ints: "profile[index] = value, 0-based, append-or-overwrite
  semantics, profile_count \<le> 100", "writing beyond index 99 fails BadParameter". They
  are set operations like the others: a closed session fails with DeviceNotReady, an
  element is an attenuation and is validated against the bounds of the level, a count
  outside 0 to \<open>PROFILE_MAX\<close> is rejected, and the validation comes before any
  exchange.
\<close>

definition set_profile_element ::
  "transport \<Rightarrow> int \<Rightarrow> int \<Rightarrow> Session \<Rightarrow> (error + unit) \<times> Session" where
  "set_profile_element tr idx v s =
     (if \<not> live s then (Inl DeviceNotReady, s)
      else if idx < 0 \<or> int PROFILE_MAX - 1 < idx then (Inl BadParameter, s)
      else if v < fst (bounds s Level) \<or> snd (bounds s Level) < v then (Inl BadParameter, s)
      else if tr (exchanges s) (WriteProfileElement (nat idx) v)
      then (Inr (), s\<lparr>profile := (profile s)(nat idx := v),
                       exchanges := exchanges s @ [WriteProfileElement (nat idx) v]\<rparr>)
      else (Inl IoError, s\<lparr>exchanges := exchanges s @ [WriteProfileElement (nat idx) v]\<rparr>))"

definition get_profile_element :: "int \<Rightarrow> Session \<Rightarrow> error + int" where
  "get_profile_element idx s =
     (if \<not> live s then Inl DeviceNotReady
      else if idx < 0 \<or> int PROFILE_MAX - 1 < idx then Inl BadParameter
      else Inr (profile s (nat idx)))"

definition set_profile_count ::
  "transport \<Rightarrow> int \<Rightarrow> Session \<Rightarrow> (error + unit) \<times> Session" where
  "set_profile_count tr n s =
     (if \<not> live s then (Inl DeviceNotReady, s)
      else if n < 0 \<or> int PROFILE_MAX < n then (Inl BadParameter, s)
      else if tr (exchanges s) (WriteProfileCount (nat n))
      then (Inr (), s\<lparr>profile_count := nat n,
                       exchanges := exchanges s @ [WriteProfileCount (nat n)]\<rparr>)
      else (Inl IoError, s\<lparr>exchanges := exchanges s @ [WriteProfileCount (nat n)]\<rparr>))"

definition get_profile_count :: "Session \<Rightarrow> error + int" where
  "get_profile_count s = (if live s then Inr (int (profile_count s)) else Inl DeviceNotReady)"

text \<open>The set operations of a session, and a run of them, each on the session the last left.\<close>

datatype session_op =
  SetParameter parameter int | SetProfileElement int int | SetProfileCount int

fun apply_op :: "transport \<Rightarrow> session_op \<Rightarrow> Session \<Rightarrow> (error + unit) \<times> Session" where
  "apply_op tr (SetParameter p v) s = set_parameter tr p v s"
| "apply_op tr (SetProfileElement idx v) s = set_profile_element tr idx v s"
| "apply_op tr (SetProfileCount n) s = set_profile_count tr n s"

fun run_ops :: "transport \<Rightarrow> session_op list \<Rightarrow> Session \<Rightarrow> Session" where
  "run_ops tr [] s = s"
| "run_ops tr (x # xs) s = run_ops tr xs (snd (apply_op tr x s))"

subsection \<open>Sequencers\<close>

text \<open>
  Modelled from the spec: the sequencer state machine of section 4.3, behind the
  declarations of \<^verbatim>\<open>fnLMS_StartSweep\<close>, \<^verbatim>\<open>fnLSG_StartSweep\<close>, \<^verbatim>\<open>fnLDA_StartRamp\<close> and
  \<^verbatim>\<open>fnLDA_StartProfile\<close>. A sequencer is a sweep, a ramp or a profile playback, in one
  of the states Idle, Armed and Running, layered on a session through which it sends
  its commands. \<^verbatim>\<open>stop()\<close> "issues the device stop command; always succeeds from the
  host's perspective even if the device was already idle (idempotent)", and "always
  returns to Idle regardless of prior state": the answer of the transport is not looked
  at.
\<close>

datatype sequencer_state = Idle | Armed | Running

record Sequencer =
  kind :: sequencer_kind
  state :: sequencer_state

definition stop ::
  "transport \<Rightarrow> Sequencer \<Rightarrow> Session \<Rightarrow> (error + unit) \<times> Sequencer \<times> Session" where
  "stop tr q s =
     (Inr (), q\<lparr>state := Idle\<rparr>, s\<lparr>exchanges := exchanges s @ [StopCommand (kind q)]\<rparr>)"

subsection \<open>Runs of open and close\<close>

text \<open>
  Modelled from the spec: callers opening devices and closing the sessions they hold,
  in any order, against one registry (sections 4.2 and 5, "exactly one Session may hold
  the open handle for a given DeviceId"). The state is the registry with the sessions
  handed out so far; \<open>OpenDevice i\<close> calls \<^verbatim>\<open>open(i)\<close> and keeps the session when the
  call succeeds, \<open>CloseSession k\<close> calls \<^verbatim>\<open>close()\<close> on the \<open>k\<close>-th session handed out.
\<close>

datatype registry_op = OpenDevice DEVID | CloseSession nat

fun registry_step ::
  "device_report \<Rightarrow> registry_op \<Rightarrow> registry \<times> Session list \<Rightarrow> registry \<times> Session list" where
  "registry_step hw (OpenDevice i) (reg, ss) =
     (case open_session hw i reg of
        (Inl e, reg') \<Rightarrow> (reg', ss)
      | (Inr s, reg') \<Rightarrow> (reg', ss @ [s]))"
| "registry_step hw (CloseSession k) (reg, ss) =
     (if k < length ss
      then (case close_session (ss ! k) reg of (s', reg') \<Rightarrow> (reg', ss[k := s']))
      else (reg, ss))"

fun registry_run ::
  "device_report \<Rightarrow> registry_op list \<Rightarrow> registry \<times> Session list \<Rightarrow> registry \<times> Session list" where
  "registry_run hw [] st = st"
| "registry_run hw (x # xs) st = registry_run hw xs (registry_step hw x st)"

text \<open>
  Modelled from the spec: the ownership of handles of section 3 ("at most one open
  Session per DeviceId at a time"), as predicates on a registry and the sessions handed
  out. The number of sessions that hold the open handle of device \<open>i\<close>; the registry records
  the handles when that number is 1 for a device marked opened and 0 for every other
  DeviceId; and a registry in which no device is marked opened, as after a scan.
\<close>

definition holders :: "DEVID \<Rightarrow> Session list \<Rightarrow> nat" where
  "holders i ss = length (filter (\<lambda>s. live s \<and> device s = i) ss)"

definition handles_recorded :: "registry \<times> Session list \<Rightarrow> bool" where
  "handles_recorded st =
     (\<forall>i. holders i (snd st) = (case fst st i of None \<Rightarrow> 0 | Some r \<Rightarrow> if opened r then 1 else 0))"

definition nothing_opened :: "registry \<Rightarrow> bool" where
  "nothing_opened reg = (\<forall>i. case reg i of None \<Rightarrow> True | Some r \<Rightarrow> \<not> opened r)"

subsection \<open>A test-mode device\<close>

text \<open>
  Modelled from the spec: one synthetic attenuator as the registry's test mode provides
  it (section 4.1), in place of the devices \<^verbatim>\<open>fnLDA_SetTestMode\<close> substitutes: attached
  and not opened, what it reports at open, the session that opening it gives, and a
  transport on which every exchange succeeds. The examples below are evaluated on them.
\<close>

definition test_record :: DeviceRecord where
  "test_record =
     \<lparr> model_name = ''LDA-602'', serial_number = 1, dev_family = Attenuator,
       connected = True, opened = False \<rparr>"

definition test_registry :: registry where
  "test_registry = Map.empty(0 \<mapsto> test_record)"

definition test_report :: device_report where
  "test_report =
     \<lparr> reported_bounds = (\<lambda>p. (0, 252)), reported_values = (\<lambda>p. 0),
       reported_profile = (\<lambda>k. 0), reported_profile_count = 3 \<rparr>"

definition test_session :: Session where
  "test_session =
     \<lparr> device = 0, live = True, bounds = (\<lambda>p. (0, 252)), cached = (\<lambda>p. 0),
       profile = (\<lambda>k. 0), profile_count = 3, exchanges = [] \<rparr>"

definition test_transport :: transport where
  "test_transport = (\<lambda>sent c. True)"

section \<open>Facts shared by the proofs\<close>

lemmas mode_mask_defs =
  LMS_MODE_RFON_def LMS_MODE_INTREF_def LMS_MODE_SWEEP_def LMS_MODE_PWMON_def
  LMS_MODE_EXTPWM_def LMS_PWM_MASK_def
  LSG_MODE_RFON_def LSG_MODE_INTREF_def LSG_MODE_SWEEP_def
  LDA_MODE_RFON_def LDA_MODE_INTREF_def LDA_MODE_SWEEP_def

lemmas status_code_defs =
  LMS_STATUS_OK_def LMS_BAD_PARAMETER_def LMS_BAD_HID_IO_def LMS_DEVICE_NOT_READY_def
  LSG_STATUS_OK_def LSG_BAD_PARAMETER_def LSG_BAD_HID_IO_def LSG_DEVICE_NOT_READY_def
  LDA_STATUS_OK_def LDA_BAD_PARAMETER_def LDA_BAD_HID_IO_def LDA_DEVICE_NOT_READY_def
  LDA_FEATURE_NOT_SUPPORTED_def

lemmas dev_status_defs =
  LMS_INVALID_DEVID_def LMS_DEV_CONNECTED_def LMS_DEV_OPENED_def LMS_SWP_ACTIVE_def
  LMS_SWP_UP_def LMS_SWP_REPEAT_def LMS_SWP_BIDIRECTIONAL_def LMS_PLL_LOCKED_def
  LMS_FAST_PULSE_OPTION_def LMS_DEV_LOCKED_def LMS_DEV_RDTHREAD_def
  LSG_INVALID_DEVID_def LSG_DEV_CONNECTED_def LSG_DEV_OPENED_def LSG_SWP_ACTIVE_def
  LSG_SWP_UP_def LSG_SWP_REPEAT_def LSG_DEV_LOCKED_def LSG_DEV_RDTHREAD_def
  LDA_INVALID_DEVID_def LDA_DEV_CONNECTED_def LDA_DEV_OPENED_def LDA_SWP_ACTIVE_def
  LDA_SWP_UP_def LDA_SWP_REPEAT_def LDA_SWP_BIDIRECTIONAL_def LDA_PROFILE_ACTIVE_def

lemma flag_set_bit: "flag_set w (push_bit n 1) = bit w n"
  by (simp add: flag_set_def bit_iff_and_push_bit_not_eq_0)

lemma status_mask_layout:
  "status_mask fam fl = map_option (\<lambda>n. push_bit n 1) (spec_layout_bit fam fl)"
  by (cases fam; cases fl) (simp_all add: dev_status_defs)

lemma status_flags_layout:
  "status_flags w fam fl = map_option (bit w) (spec_layout_bit fam fl)"
  unfolding status_flags_def status_mask_layout option.map_comp comp_def flag_set_bit ..

section \<open>Status word\<close>

text \<open>
  C1. For every 32-bit status word \<open>w\<close>, every family and every flag, the mask that the
  family's header defines for the flag is the single bit at the position the layout
  table of the specification gives, and the flag read through the mask is that bit of
  \<open>w\<close>; a flag the table does not list for the family has no mask in the family's
  header. By the table: invalid device id bit 31, connected bit 0, opened bit 1,
  sweep or ramp active bit 2, direction up bit 3, repeat bit 4 in all three families;
  bidirectional bit 5 for synthesizer and attenuator; PLL locked bit 6 and fast pulse
  option bit 7 for the synthesizer; profile active bit 6 for the attenuator; the
  internal locked and read-thread flags bits 13 and 14 for the synthesizer, bits 5 and
  6 for the generator.
\<close>

theorem status_flags_at_layout_bits:
  "status_mask fam fl = map_option (\<lambda>n. push_bit n 1) (spec_layout_bit fam fl)
   \<and> status_flags w fam fl = map_option (bit w) (spec_layout_bit fam fl)"
  using status_mask_layout status_flags_layout by simp

lemma raised_41:
  "raised_flags 0x41 Synthesizer = [DEV_CONNECTED, PLL_LOCKED]"
  "raised_flags 0x41 Generator = [DEV_CONNECTED, DEV_RDTHREAD]"
  "raised_flags 0x41 Attenuator = [DEV_CONNECTED, PROFILE_ACTIVE]"
  "raised_flags 0x21 Synthesizer = [DEV_CONNECTED, SWP_BIDIRECTIONAL]"
  "raised_flags 0x21 Generator = [DEV_CONNECTED, DEV_LOCKED]"
  "raised_flags 0x21 Attenuator = [DEV_CONNECTED, SWP_BIDIRECTIONAL]"
  by (simp_all add: raised_flags_def all_status_flags_def status_flags_def flag_set_def
      dev_status_defs)

text \<open>
  C2. Reading a status word depends on the family at bits 5 and 6. In every word, bit 5
  is the bidirectional flag for synthesizer and attenuator and the internal locked flag
  for the generator, whose header has no bidirectional flag; bit 6 is PLL locked for the
  synthesizer, the internal read-thread flag for the generator and profile active for
  the attenuator. So the word 0x41 (connected, bit 6) raises a different flag in each of
  the three families, and the word 0x21 (connected, bit 5) raises the bidirectional
  flag for synthesizer and attenuator and the locked flag for the generator.
\<close>

theorem status_flags_family_dependent:
  "raised_flags 0x41 Synthesizer = [DEV_CONNECTED, PLL_LOCKED]
   \<and> raised_flags 0x41 Generator = [DEV_CONNECTED, DEV_RDTHREAD]
   \<and> raised_flags 0x41 Attenuator = [DEV_CONNECTED, PROFILE_ACTIVE]
   \<and> raised_flags 0x21 Synthesizer = [DEV_CONNECTED, SWP_BIDIRECTIONAL]
   \<and> raised_flags 0x21 Generator = [DEV_CONNECTED, DEV_LOCKED]
   \<and> raised_flags 0x21 Attenuator = [DEV_CONNECTED, SWP_BIDIRECTIONAL]
   \<and> status_flags w Synthesizer SWP_BIDIRECTIONAL = Some (bit w 5)
   \<and> status_flags w Attenuator SWP_BIDIRECTIONAL = Some (bit w 5)
   \<and> status_flags w Generator DEV_LOCKED = Some (bit w 5)
   \<and> status_flags w Generator SWP_BIDIRECTIONAL = None
   \<and> status_flags w Synthesizer PLL_LOCKED = Some (bit w 6)
   \<and> status_flags w Generator DEV_RDTHREAD = Some (bit w 6)
   \<and> status_flags w Attenuator PROFILE_ACTIVE = Some (bit w 6)
   \<and> status_flags w Generator PLL_LOCKED = None
   \<and> status_flags w Attenuator PLL_LOCKED = None
   \<and> status_flags w Synthesizer PROFILE_ACTIVE = None
   \<and> status_flags w Generator PROFILE_ACTIVE = None"
  by (simp add: raised_41 status_flags_layout)

lemma connected_bit0: "(status_flags w fam DEV_CONNECTED = Some True) = bit w 0"
  by (simp add: status_flags_layout)

lemma decode_connected: "device_connected (decode w fam) = bit w 0"
  by (simp add: decode_def connected_bit0)

lemma decode_unknown:
  "\<not> bit w 0 \<Longrightarrow> dependent_flags (decode w fam) = [None, None, None, None, None, None, None, None]"
  by (simp add: decode_def dependent_flags_def dependent_flag_def connected_bit0)

lemma decode_known:
  "bit w 0 \<Longrightarrow> dependent_flags (decode w fam) =
     map (status_flags w fam)
       [DEV_OPENED, SWP_ACTIVE, SWP_UP, SWP_REPEAT, SWP_BIDIRECTIONAL, PLL_LOCKED,
        FAST_PULSE_OPTION, PROFILE_ACTIVE]"
  by (simp add: decode_def dependent_flags_def dependent_flag_def connected_bit0)

text \<open>
  C7. The decoder is a function of the raw word and the family alone: equal words and
  equal families give equal DeviceStatus values. Its \<open>device_connected\<close> is bit 0 of the
  word; when that flag is false every other flag of the result is the unknown value
  \<open>None\<close>, whatever the other bits of the word are, and when it is true every other flag
  is the flag of the word for the family.
\<close>

theorem decode_pure_unknown_when_disconnected:
  "(w = w' \<and> fam = fam' \<longrightarrow> decode w fam = decode w' fam')
   \<and> device_connected (decode w fam) = bit w 0
   \<and> (\<not> device_connected (decode w fam) \<longrightarrow>
        dependent_flags (decode w fam) = [None, None, None, None, None, None, None, None])
   \<and> (device_connected (decode w fam) \<longrightarrow>
        dependent_flags (decode w fam) =
          map (status_flags w fam)
            [DEV_OPENED, SWP_ACTIVE, SWP_UP, SWP_REPEAT, SWP_BIDIRECTIONAL, PLL_LOCKED,
             FAST_PULSE_OPTION, PROFILE_ACTIVE])"
  by (simp add: decode_connected decode_unknown decode_known)

text \<open>
  The word 0xFE has every bit from 1 to 7 set and bit 0 clear: decoded for the
  synthesizer, every dependent flag is unknown. The word 0x47 decoded for the attenuator
  is connected, opened, ramping, and playing a profile.
\<close>

theorem decode_pure_unknown_when_disconnected_witness:
  "\<not> device_connected (decode 0xFE Synthesizer)
   \<and> dependent_flags (decode 0xFE Synthesizer)
       = [None, None, None, None, None, None, None, None]
   \<and> device_connected (decode 0x47 Attenuator)
   \<and> dependent_flags (decode 0x47 Attenuator)
       = [Some True, Some True, Some False, Some False, Some False, None, None, Some True]
   \<and> decode (0xFF - 1) Synthesizer = decode 0xFE Synthesizer"
  using decode_pure_unknown_when_disconnected [of "0xFE" "0xFF - 1" Synthesizer Synthesizer]
    decode_pure_unknown_when_disconnected [of "0x47" "0x47" Attenuator Attenuator]
  by (simp add: status_flags_def flag_set_def dev_status_defs)

section \<open>Mode word\<close>

lemma update_field_frame:
  "m AND k = 0 \<Longrightarrow> update_field m mode bits AND k = mode AND k"
  unfolding update_field_def
  by (rule bit_eqI) (auto simp: bit_and_iff bit_or_iff bit_not_iff bit_eq_iff)

lemma update_field_written:
  "update_field m mode bits AND m = bits AND m"
  unfolding update_field_def
  by (rule bit_eqI) (auto simp: bit_and_iff bit_or_iff bit_not_iff)

lemma sweep_pwm_masks:
  "LMS_MODE_SWEEP AND LMS_PWM_MASK = 0" "LMS_PWM_MASK AND LMS_MODE_SWEEP = 0"
  "LMS_MODE_SWEEP = mask 4" "LMS_PWM_MASK = push_bit 8 (mask 2)"
  "LMS_PWM_MASK = LMS_MODE_PWMON OR LMS_MODE_EXTPWM"
  by (simp_all add: mode_mask_defs mask_eq_exp_minus_1)

text \<open>
  C8. In the synthesizer's mode word the sweep control field (\<open>MODE_SWEEP\<close>, the four
  bits 0 to 3) and the pulse modulation bits (\<open>PWM_MASK\<close>, bits 8 and 9, the two bits
  \<open>MODE_PWMON\<close> and \<open>MODE_EXTPWM\<close>) have no bit in common: for every mode word and every
  new value, updating the PWM bits leaves the sweep field as it was and updating the
  sweep field leaves the PWM bits as they were, and each update does write its own
  field.
\<close>

theorem sweep_and_pwm_fields_independent:
  "LMS_MODE_SWEEP = mask 4
   \<and> LMS_PWM_MASK = push_bit 8 (mask 2)
   \<and> LMS_PWM_MASK = LMS_MODE_PWMON OR LMS_MODE_EXTPWM
   \<and> LMS_MODE_SWEEP AND LMS_PWM_MASK = 0
   \<and> update_field LMS_PWM_MASK mode bits AND LMS_MODE_SWEEP = mode AND LMS_MODE_SWEEP
   \<and> update_field LMS_MODE_SWEEP mode bits AND LMS_PWM_MASK = mode AND LMS_PWM_MASK
   \<and> update_field LMS_PWM_MASK mode bits AND LMS_PWM_MASK = bits AND LMS_PWM_MASK
   \<and> update_field LMS_MODE_SWEEP mode bits AND LMS_MODE_SWEEP = bits AND LMS_MODE_SWEEP"
  using sweep_pwm_masks(3,4,5)
  by (simp only: update_field_frame [OF sweep_pwm_masks(1)]
      update_field_frame [OF sweep_pwm_masks(2)] update_field_written sweep_pwm_masks(1))

lemma mode_masks_layout:
  "mode_rfon_mask Attenuator = push_bit 6 1" "mode_sweep_mask Attenuator = mask 5"
  "mode_rfon_mask Synthesizer = push_bit 4 1" "mode_sweep_mask Synthesizer = mask 4"
  "mode_rfon_mask Generator = push_bit 4 1" "mode_sweep_mask Generator = mask 4"
  by (simp_all add: mode_mask_defs mask_eq_exp_minus_1)

lemma mode_rf_on_bit:
  "mode_rf_on Attenuator mode = bit mode 6"
  "mode_rf_on Synthesizer mode = bit mode 4"
  "mode_rf_on Generator mode = bit mode 4"
  unfolding mode_rf_on_def mode_masks_layout flag_set_bit by simp_all

text \<open>
  C10. The layout of the mode word depends on the family: in the attenuator's header
  RF-on is bit 6 (mask 0x40) and the ramp control field is the five bits under 0x1F; in
  the synthesizer's and the generator's header RF-on is bit 4 (mask 0x10) and the sweep
  control field is the four bits under 0x0F. The mode word 0x10 is RF-on read with the
  synthesizer's or generator's mask and RF-off read with the attenuator's; the mode
  word 0x40 is the other way round.
\<close>

theorem mode_layout_family_dependent:
  "mode_rfon_mask Attenuator = push_bit 6 1 \<and> mode_sweep_mask Attenuator = mask 5
   \<and> mode_rfon_mask Synthesizer = push_bit 4 1 \<and> mode_sweep_mask Synthesizer = mask 4
   \<and> mode_rfon_mask Generator = push_bit 4 1 \<and> mode_sweep_mask Generator = mask 4
   \<and> mode_rf_on Attenuator mode = bit mode 6
   \<and> mode_rf_on Synthesizer mode = bit mode 4
   \<and> mode_rf_on Generator mode = bit mode 4
   \<and> mode_rf_on Synthesizer 0x10 \<and> mode_rf_on Generator 0x10
   \<and> \<not> mode_rf_on Attenuator 0x10
   \<and> mode_rf_on Attenuator 0x40 \<and> \<not> mode_rf_on Synthesizer 0x40
   \<and> \<not> mode_rf_on Generator 0x40"
proof -
  have "mode_rf_on Synthesizer 0x10" "mode_rf_on Generator 0x10"
    "\<not> mode_rf_on Attenuator 0x10" "mode_rf_on Attenuator 0x40"
    "\<not> mode_rf_on Synthesizer 0x40" "\<not> mode_rf_on Generator 0x40"
    by (simp_all add: mode_rf_on_def flag_set_def mode_mask_defs)
  then show ?thesis
    using mode_masks_layout mode_rf_on_bit [of mode] by simp
qed

section \<open>Status codes\<close>

lemma status_bit31:
  "bit LDA_BAD_PARAMETER 31" "bit LDA_BAD_HID_IO 31" "bit LDA_DEVICE_NOT_READY 31"
  "bit LDA_FEATURE_NOT_SUPPORTED 31" "\<not> bit LDA_STATUS_OK 31"
  unfolding bit_iff_and_push_bit_not_eq_0 by (simp_all add: status_code_defs)

lemma sint_neg_bit31: "(sint (v :: 32 word) < 0) = bit v 31"
  by (simp add: bit_last_iff [where ?'a = 32, simplified])

lemma status_same:
  "LMS_status c = LSG_status c"
  "LMS_status c = (if c = FEATURE_NOT_SUPPORTED then None else LDA_status c)"
  by (cases c; simp add: status_code_defs)+

lemma LDA_status_inj: "(LDA_status c = LDA_status c') = (c = c')"
  by (cases c; cases c'; simp add: status_code_defs)

lemma LDA_status_sign:
  "\<exists>v. LDA_status c = Some v \<and> bit v 31 = (c \<noteq> STATUS_OK) \<and> (sint v < 0) = (c \<noteq> STATUS_OK)
     \<and> (v = 0) = (c = STATUS_OK)"
  unfolding sint_neg_bit31
  by (cases c) (simp_all add: status_bit31, simp_all add: status_code_defs)

text \<open>
  C9. \<open>STATUS_OK\<close> is 0 in every header; the synthesizer's and the generator's header
  give every status name the same value, and the attenuator's header gives the same
  values and \<open>FEATURE_NOT_SUPPORTED\<close> in addition; different names have different
  values; and the value of a name has bit 31 set, that is, is negative as a signed
  32-bit integer, exactly when the name is not \<open>STATUS_OK\<close>, and is 0 exactly when it
  is.
\<close>

theorem status_codes_negative:
  "status_value fam STATUS_OK = Some 0
   \<and> status_value Synthesizer c = status_value Generator c
   \<and> status_value Synthesizer c
       = (if c = FEATURE_NOT_SUPPORTED then None else status_value Attenuator c)
   \<and> (status_value Attenuator c = status_value Attenuator c') = (c = c')
   \<and> (\<exists>v. status_value Attenuator c = Some v
         \<and> bit v 31 = (c \<noteq> STATUS_OK)
         \<and> (sint v < 0) = (c \<noteq> STATUS_OK)
         \<and> (v = 0) = (c = STATUS_OK))"
proof (intro conjI)
  show "status_value fam STATUS_OK = Some 0"
    by (cases fam) (simp_all add: status_code_defs)
  show "status_value Synthesizer c = status_value Generator c"
    by (simp add: status_same(1))
  show "status_value Synthesizer c
      = (if c = FEATURE_NOT_SUPPORTED then None else status_value Attenuator c)"
    using status_same(2) [of c] by simp
  show "(status_value Attenuator c = status_value Attenuator c') = (c = c')"
    by (simp add: LDA_status_inj)
  show "\<exists>v. status_value Attenuator c = Some v
         \<and> bit v 31 = (c \<noteq> STATUS_OK)
         \<and> (sint v < 0) = (c \<noteq> STATUS_OK)
         \<and> (v = 0) = (c = STATUS_OK)"
    using LDA_status_sign [of c] by simp
qed

section \<open>Sessions\<close>

text \<open>
  C3. On a session that holds its handle, setting a parameter to a value strictly below
  the cached minimum or strictly above the cached maximum returns BadParameter and
  leaves the whole session as it was, on every transport: no request is sent, the
  cached values are unchanged, and the getter returns what it returned before, not a
  value clamped into the range. The same holds for a profile element outside the bounds
  of the level.
\<close>

theorem set_outside_bounds_rejected:
  "live s \<Longrightarrow> v < fst (bounds s p) \<or> snd (bounds s p) < v \<Longrightarrow>
   set_parameter tr p v s = (Inl BadParameter, s)
   \<and> exchanges (snd (set_parameter tr p v s)) = exchanges s
   \<and> cached (snd (set_parameter tr p v s)) = cached s
   \<and> get_parameter p (snd (set_parameter tr p v s)) = get_parameter p s
   \<and> (p = Level \<longrightarrow> set_profile_element tr idx v s = (Inl BadParameter, s))"
  by (auto simp: set_parameter_def set_profile_element_def)

text \<open>
  The test session has the bounds 0 and 252 and the cached level 0: setting the level to
  253 is rejected, nothing is sent, and the level read back is still 0, not 252.
\<close>

theorem set_outside_bounds_rejected_witness:
  "live test_session \<and> snd (bounds test_session Level) < 253
   \<and> set_parameter test_transport Level 253 test_session = (Inl BadParameter, test_session)
   \<and> get_parameter Level (snd (set_parameter test_transport Level 253 test_session)) = Inr 0
   \<and> exchanges (snd (set_parameter test_transport Level 253 test_session)) = []
   \<and> set_profile_element test_transport 1 253 test_session = (Inl BadParameter, test_session)"
  using set_outside_bounds_rejected [of test_session 253 Level test_transport 1]
  by (simp add: test_session_def get_parameter_def)

lemma filter_update_length:
  "k < length xs \<Longrightarrow>
   length (filter P (xs[k := x])) + (if P (xs ! k) then 1 else 0)
     = length (filter P xs) + (if P x then 1 else 0)"
proof (induction xs arbitrary: k)
  case Nil
  then show ?case by simp
next
  case (Cons a xs)
  show ?case
  proof (cases k)
    case 0
    then show ?thesis by simp
  next
    case (Suc j)
    with Cons.prems have "j < length xs" by simp
    from Cons.IH [OF this] Suc show ?thesis by simp
  qed
qed

lemma holders_update:
  "k < length ss \<Longrightarrow>
   holders i (ss[k := s']) + (if live (ss ! k) \<and> device (ss ! k) = i then 1 else 0)
     = holders i ss + (if live s' \<and> device s' = i then 1 else 0)"
  unfolding holders_def by (rule filter_update_length)

lemma holders_append:
  "holders i (ss @ [s]) = holders i ss + (if live s \<and> device s = i then 1 else 0)"
  by (simp add: holders_def)

lemma holders_pos:
  "k < length ss \<Longrightarrow> live (ss ! k) \<Longrightarrow> 0 < holders (device (ss ! k)) ss"
  unfolding holders_def by (auto simp: filter_empty_conv intro!: bexI [of _ "ss ! k"])

lemma open_step_recorded:
  assumes "handles_recorded (reg, ss)"
  shows "handles_recorded (registry_step hw (OpenDevice i) (reg, ss))"
proof (cases "reg i")
  case None
  with assms show ?thesis by (simp add: open_session_def)
next
  case (Some r)
  show ?thesis
  proof (cases "\<not> connected r \<or> opened r")
    case True
    with Some assms show ?thesis by (simp add: open_session_def)
  next
    case False
    from assms Some False have "holders i ss = 0"
      by (auto simp: handles_recorded_def dest: spec [of _ i])
    with assms Some False show ?thesis
      by (auto simp: handles_recorded_def open_session_def holders_append)
  qed
qed

lemma close_step_recorded:
  assumes "handles_recorded (reg, ss)"
  shows "handles_recorded (registry_step hw (CloseSession k) (reg, ss))"
proof (cases "k < length ss \<and> live (ss ! k)")
  case False
  with assms show ?thesis by (auto simp: close_session_def)
next
  case True
  define d where "d = device (ss ! k)"
  from True have pos: "0 < holders d ss" unfolding d_def by (simp add: holders_pos)
  with assms obtain r where r: "reg d = Some r" "opened r" "holders d ss = 1"
    by (auto simp: handles_recorded_def dest!: spec [of _ d] split: option.splits if_splits)
  have upd: "holders i (ss[k := (ss ! k)\<lparr>live := False\<rparr>]) + (if d = i then 1 else 0) = holders i ss" for i
    using holders_update [of k ss i "(ss ! k)\<lparr>live := False\<rparr>"] True by (simp add: d_def)
  have step: "registry_step hw (CloseSession k) (reg, ss)
      = (reg(d \<mapsto> r\<lparr>opened := False\<rparr>), ss[k := (ss ! k)\<lparr>live := False\<rparr>])"
    using True r by (simp add: close_session_def d_def)
  show ?thesis
    unfolding step handles_recorded_def
  proof (intro allI)
    fix i
    show "holders i (snd (reg(d \<mapsto> r\<lparr>opened := False\<rparr>), ss[k := (ss ! k)\<lparr>live := False\<rparr>]))
      = (case fst (reg(d \<mapsto> r\<lparr>opened := False\<rparr>), ss[k := (ss ! k)\<lparr>live := False\<rparr>]) i of
           None \<Rightarrow> 0 | Some r \<Rightarrow> if opened r then 1 else 0)"
    proof (cases "i = d")
      case True
      with upd [of d] r show ?thesis by simp
    next
      case False
      with upd [of i] assms show ?thesis
        by (auto simp: handles_recorded_def dest!: spec [of _ i])
    qed
  qed
qed

lemma step_recorded:
  "handles_recorded st \<Longrightarrow> handles_recorded (registry_step hw x st)"
  by (cases st; cases x) (simp_all only: open_step_recorded close_step_recorded)

lemma run_recorded:
  "handles_recorded st \<Longrightarrow> handles_recorded (registry_run hw xs st)"
  by (induction xs arbitrary: st) (simp_all add: step_recorded)

lemma recorded_at_most_one:
  "handles_recorded st \<Longrightarrow> holders i (snd st) \<le> 1"
  by (auto simp: handles_recorded_def dest!: spec [of _ i] split: option.splits)

lemma nothing_opened_recorded: "nothing_opened reg \<Longrightarrow> handles_recorded (reg, [])"
proof -
  assume a: "nothing_opened reg"
  have "holders i [] = (case reg i of None \<Rightarrow> 0 | Some r \<Rightarrow> if opened r then 1 else 0)" for i
    using a [unfolded nothing_opened_def, THEN spec, of i]
    by (auto simp: holders_def split: option.splits)
  then show ?thesis by (simp add: handles_recorded_def)
qed

lemma open_opened:
  "reg i = Some r \<Longrightarrow> opened r \<Longrightarrow> open_session hw i reg = (Inl DeviceNotReady, reg)"
  by (simp add: open_session_def)

lemma open_free:
  "reg i = Some r \<Longrightarrow> connected r \<Longrightarrow> \<not> opened r \<Longrightarrow>
   open_session hw i reg =
     (Inr \<lparr> device = i, live = True, bounds = reported_bounds hw,
            cached = reported_values hw, profile = reported_profile hw,
            profile_count = min (reported_profile_count hw) PROFILE_MAX,
            exchanges = [] \<rparr>,
      reg(i \<mapsto> r\<lparr>opened := True\<rparr>))"
  by (simp add: open_session_def)

lemma close_releases:
  "reg i = Some r \<Longrightarrow> \<not> opened r \<Longrightarrow> live s \<Longrightarrow> device s = i \<Longrightarrow>
   snd (close_session s (reg(i \<mapsto> r\<lparr>opened := True\<rparr>))) = reg"
  by (auto simp: close_session_def fun_eq_iff)

text \<open>
  C4. A device holds at most one open handle. Opening a device that the registry marks
  opened fails with DeviceNotReady and leaves the registry as it was: the first session
  keeps the handle and nothing is queued. Opening a connected device that is not opened
  succeeds and marks it opened; a second open then fails with DeviceNotReady; closing
  the session gives the registry back as it was before the open, and opening the device
  again succeeds. In every run of opens and closes from a registry with no device
  opened, the number of sessions holding the handle of a device is never more than one.
\<close>

theorem open_is_exclusive:
  "(reg i = Some r \<and> opened r \<longrightarrow> open_session hw i reg = (Inl DeviceNotReady, reg))
   \<and> (reg i = Some r \<and> connected r \<and> \<not> opened r \<longrightarrow>
        (\<exists>s. open_session hw i reg = (Inr s, reg(i \<mapsto> r\<lparr>opened := True\<rparr>))
           \<and> live s \<and> device s = i
           \<and> open_session hw' i (reg(i \<mapsto> r\<lparr>opened := True\<rparr>))
               = (Inl DeviceNotReady, reg(i \<mapsto> r\<lparr>opened := True\<rparr>))
           \<and> snd (close_session s (reg(i \<mapsto> r\<lparr>opened := True\<rparr>))) = reg
           \<and> (\<exists>s'. open_session hw' i (snd (close_session s (reg(i \<mapsto> r\<lparr>opened := True\<rparr>))))
                      = (Inr s', reg(i \<mapsto> r\<lparr>opened := True\<rparr>))
                 \<and> live s' \<and> device s' = i)))
   \<and> (nothing_opened reg \<longrightarrow> holders i (snd (registry_run hw ops (reg, []))) \<le> 1)"
proof (intro conjI impI)
  assume "reg i = Some r \<and> opened r"
  then show "open_session hw i reg = (Inl DeviceNotReady, reg)"
    by (simp add: open_opened)
next
  assume a: "reg i = Some r \<and> connected r \<and> \<not> opened r"
  let ?reg1 = "reg(i \<mapsto> r\<lparr>opened := True\<rparr>)"
  let ?s = "\<lparr> device = i, live = True, bounds = reported_bounds hw,
            cached = reported_values hw, profile = reported_profile hw,
            profile_count = min (reported_profile_count hw) PROFILE_MAX,
            exchanges = [] \<rparr>"
  from a have 1: "open_session hw i reg = (Inr ?s, ?reg1)" by (simp add: open_free)
  have 2: "open_session hw' i ?reg1 = (Inl DeviceNotReady, ?reg1)"
    by (rule open_opened [of _ _ "r\<lparr>opened := True\<rparr>"]) simp_all
  from a have 3: "snd (close_session ?s ?reg1) = reg" by (simp add: close_releases)
  from a have 4: "\<exists>s'. open_session hw' i reg = (Inr s', ?reg1) \<and> live s' \<and> device s' = i"
    by (simp add: open_free)
  from 1 2 3 4 show "\<exists>s. open_session hw i reg = (Inr s, ?reg1)
           \<and> live s \<and> device s = i
           \<and> open_session hw' i ?reg1 = (Inl DeviceNotReady, ?reg1)
           \<and> snd (close_session s ?reg1) = reg
           \<and> (\<exists>s'. open_session hw' i (snd (close_session s ?reg1)) = (Inr s', ?reg1)
                 \<and> live s' \<and> device s' = i)"
    by (intro exI [of _ ?s]) simp
next
  assume "nothing_opened reg"
  then have "handles_recorded (registry_run hw ops (reg, []))"
    by (intro run_recorded nothing_opened_recorded)
  then show "holders i (snd (registry_run hw ops (reg, []))) \<le> 1"
    by (rule recorded_at_most_one)
qed

lemma test_registry_facts:
  "test_registry 0 = Some test_record" "connected test_record" "\<not> opened test_record"
  "nothing_opened test_registry"
  by (simp_all add: test_registry_def test_record_def nothing_opened_def)

text \<open>
  On the test registry: device 0 opens, a second open fails, and after open, open, close,
  open one session holds the handle.
\<close>

theorem open_is_exclusive_witness:
  "test_registry 0 = Some test_record \<and> connected test_record \<and> \<not> opened test_record
   \<and> (test_registry(0 \<mapsto> test_record\<lparr>opened := True\<rparr>)) 0 = Some (test_record\<lparr>opened := True\<rparr>)
   \<and> opened (test_record\<lparr>opened := True\<rparr>)
   \<and> open_session test_report 0 (test_registry(0 \<mapsto> test_record\<lparr>opened := True\<rparr>))
       = (Inl DeviceNotReady, test_registry(0 \<mapsto> test_record\<lparr>opened := True\<rparr>))
   \<and> (\<exists>s. open_session test_report 0 test_registry
              = (Inr s, test_registry(0 \<mapsto> test_record\<lparr>opened := True\<rparr>))
         \<and> (\<exists>s'. open_session test_report 0
                    (snd (close_session s (test_registry(0 \<mapsto> test_record\<lparr>opened := True\<rparr>))))
                  = (Inr s', test_registry(0 \<mapsto> test_record\<lparr>opened := True\<rparr>))))
   \<and> nothing_opened test_registry
   \<and> holders 0 (snd (registry_run test_report
         [OpenDevice 0, OpenDevice 0, CloseSession 0, OpenDevice 0] (test_registry, []))) \<le> 1"
  using open_is_exclusive [of "test_registry(0 \<mapsto> test_record\<lparr>opened := True\<rparr>)" 0
      "test_record\<lparr>opened := True\<rparr>" test_report test_report "[]"]
    open_is_exclusive [of test_registry 0 test_record test_report test_report
      "[OpenDevice 0, OpenDevice 0, CloseSession 0, OpenDevice 0]"]
    test_registry_facts
  by auto

lemma profile_write_then_read:
  "set_profile_element tr idx v s = (Inr (), s') \<Longrightarrow> get_profile_element idx s' = Inr v"
  by (auto simp: set_profile_element_def get_profile_element_def split: if_splits)

lemma profile_write_succeeds:
  assumes "live s" "0 \<le> idx" "idx < int (profile_count s)" "profile_count s \<le> PROFILE_MAX"
    and "fst (bounds s Level) \<le> v" "v \<le> snd (bounds s Level)"
    and "tr (exchanges s) (WriteProfileElement (nat idx) v)"
  shows "\<exists>s'. set_profile_element tr idx v s = (Inr (), s')"
  using assms by (simp add: set_profile_element_def)

lemma profile_write_beyond:
  "live s \<Longrightarrow> 99 < idx \<Longrightarrow> set_profile_element tr idx v s = (Inl BadParameter, s)"
  by (simp add: set_profile_element_def PROFILE_MAX_def)

lemma apply_op_count:
  "profile_count s \<le> PROFILE_MAX \<Longrightarrow> profile_count (snd (apply_op tr x s)) \<le> PROFILE_MAX"
  by (cases x) (auto simp: set_parameter_def set_profile_element_def set_profile_count_def)

lemma run_ops_count:
  "profile_count s \<le> PROFILE_MAX \<Longrightarrow> profile_count (run_ops tr xs s) \<le> PROFILE_MAX"
  by (induction xs arbitrary: s) (simp_all add: apply_op_count)

lemma open_session_count:
  "open_session hw i reg = (Inr s, reg') \<Longrightarrow> profile_count s \<le> PROFILE_MAX"
  by (auto simp: open_session_def split: option.splits if_splits)

text \<open>
  C5. On the attenuator's profile: on a session that holds its handle and whose profile
  count is at most \<open>PROFILE_MAX\<close>, writing an attenuation within the bounds of the level
  at an index from 0 to below the profile count succeeds when the exchange does, and
  reading that index then returns the value written; whenever a write succeeds, reading
  its index returns the value written. The profile count of a session never exceeds
  100: it is at most 100 after open and after every run of set operations. Writing at
  an index greater than 99 fails with BadParameter and leaves the session, and so the
  profile, as it was.
\<close>

theorem profile_list_operations:
  "(live s \<and> 0 \<le> idx \<and> idx < int (profile_count s) \<and> profile_count s \<le> PROFILE_MAX
      \<and> fst (bounds s Level) \<le> v \<and> v \<le> snd (bounds s Level)
      \<and> tr (exchanges s) (WriteProfileElement (nat idx) v)
     \<longrightarrow> (\<exists>s1. set_profile_element tr idx v s = (Inr (), s1)
            \<and> get_profile_element idx s1 = Inr v))
   \<and> (set_profile_element tr idx v s = (Inr (), s') \<longrightarrow> get_profile_element idx s' = Inr v)
   \<and> (open_session hw i reg = (Inr s0, reg') \<longrightarrow> profile_count (run_ops tr ops s0) \<le> 100)
   \<and> (live s \<and> 99 < idx \<longrightarrow> set_profile_element tr idx v s = (Inl BadParameter, s))"
proof (intro conjI impI)
  assume a: "live s \<and> 0 \<le> idx \<and> idx < int (profile_count s) \<and> profile_count s \<le> PROFILE_MAX
      \<and> fst (bounds s Level) \<le> v \<and> v \<le> snd (bounds s Level)
      \<and> tr (exchanges s) (WriteProfileElement (nat idx) v)"
  then obtain s1 where "set_profile_element tr idx v s = (Inr (), s1)"
    using profile_write_succeeds [of s idx v tr] by blast
  then show "\<exists>s1. set_profile_element tr idx v s = (Inr (), s1)
            \<and> get_profile_element idx s1 = Inr v"
    using profile_write_then_read by blast
next
  assume "set_profile_element tr idx v s = (Inr (), s')"
  then show "get_profile_element idx s' = Inr v" by (rule profile_write_then_read)
next
  assume "open_session hw i reg = (Inr s0, reg')"
  then have "profile_count (run_ops tr ops s0) \<le> PROFILE_MAX"
    by (intro run_ops_count) (rule open_session_count)
  then show "profile_count (run_ops tr ops s0) \<le> 100" by (simp add: PROFILE_MAX_def)
next
  assume "live s \<and> 99 < idx"
  then show "set_profile_element tr idx v s = (Inl BadParameter, s)"
    by (simp add: profile_write_beyond)
qed

lemma test_open:
  "open_session test_report 0 test_registry
     = (Inr test_session, test_registry(0 \<mapsto> test_record\<lparr>opened := True\<rparr>))"
  by (simp add: open_session_def test_report_def test_registry_def test_record_def
      test_session_def PROFILE_MAX_def)

text \<open>
  On the test session (three elements, bounds 0 and 252): writing 20 at index 1 reads
  back 20; a count of 150 is rejected and a count of 100 accepted; a write at index 100
  is rejected.
\<close>

theorem profile_list_operations_witness:
  "live test_session \<and> (1::int) < int (profile_count test_session)
   \<and> profile_count test_session \<le> PROFILE_MAX
   \<and> fst (bounds test_session Level) \<le> 20 \<and> 20 \<le> snd (bounds test_session Level)
   \<and> test_transport (exchanges test_session) (WriteProfileElement (nat 1) 20)
   \<and> (\<exists>s1. set_profile_element test_transport 1 20 test_session = (Inr (), s1)
         \<and> get_profile_element 1 s1 = Inr 20)
   \<and> open_session test_report 0 test_registry
       = (Inr test_session, test_registry(0 \<mapsto> test_record\<lparr>opened := True\<rparr>))
   \<and> profile_count (run_ops test_transport
        [SetProfileCount 150, SetProfileCount 100, SetProfileElement 100 5] test_session) \<le> 100
   \<and> set_profile_element test_transport 100 5 test_session = (Inl BadParameter, test_session)"
  using profile_list_operations [of test_session 1 20 test_transport undefined test_report 0
      test_registry test_session "test_registry(0 \<mapsto> test_record\<lparr>opened := True\<rparr>)"
      "[SetProfileCount 150, SetProfileCount 100, SetProfileElement 100 5]"]
    profile_list_operations [of test_session 100 5 test_transport]
    test_open
  by (simp add: test_session_def test_transport_def PROFILE_MAX_def)

section \<open>Sequencers\<close>

text \<open>
  C6. For a sweep, a ramp or a profile playback in any state and on any transport,
  \<open>stop\<close> succeeds and leaves the sequencer Idle, its kind unchanged. It is idempotent: a
  sequencer that is already Idle is left as it is, and a second \<open>stop\<close> after the first
  succeeds and changes nothing in the sequencer.
\<close>

theorem stop_returns_to_idle:
  "fst (stop tr q s) = Inr ()
   \<and> state (fst (snd (stop tr q s))) = Idle
   \<and> kind (fst (snd (stop tr q s))) = kind q
   \<and> (state q = Idle \<longrightarrow> fst (snd (stop tr q s)) = q)
   \<and> fst (stop tr' (fst (snd (stop tr q s))) (snd (snd (stop tr q s)))) = Inr ()
   \<and> fst (snd (stop tr' (fst (snd (stop tr q s))) (snd (snd (stop tr q s)))))
       = fst (snd (stop tr q s))"
  by (simp add: stop_def)

text \<open>
  Stopping an idle ramp and a running sweep on the test session.
\<close>

theorem stop_returns_to_idle_witness:
  "state \<lparr>kind = Ramp, state = Idle\<rparr> = Idle
   \<and> stop test_transport \<lparr>kind = Ramp, state = Idle\<rparr> test_session
      = (Inr (), \<lparr>kind = Ramp, state = Idle\<rparr>,
         test_session\<lparr>exchanges := [StopCommand Ramp]\<rparr>)
   \<and> fst (snd (stop test_transport \<lparr>kind = Sweep, state = Running\<rparr> test_session))
      = \<lparr>kind = Sweep, state = Idle\<rparr>"
  using stop_returns_to_idle [of test_transport "\<lparr>kind = Ramp, state = Idle\<rparr>" test_session]
    stop_returns_to_idle [of test_transport "\<lparr>kind = Sweep, state = Running\<rparr>" test_session]
  by (simp add: stop_def test_session_def)

end
